theory Spec2Isabelle
  imports Complex_Main "HOL-Library.Sublist"
begin

section \<open>Errors raised by the service\<close>

text \<open>
  Exceptions of the Python code, as values. \<open>KeyError\<close> is the one exception the
  repository's own code can raise besides \<open>HTTPException\<close>; \<open>Raised\<close> stands for an
  exception coming out of a library call (PIL, OpenCV, the detection model), carrying the
  text \<open>str(e)\<close> would give.
\<close>

datatype exn = KeyError nat | TypeError string | Raised string

datatype error =
    HTTPException (status_code: nat) (detail: string)
  | RequestValidationError
  | Unhandled exn

text \<open>Decimal rendering of a natural number, as \<open>str\<close> renders a non-negative int.\<close>

fun digit_char :: "nat \<Rightarrow> char" where
  "digit_char n = char_of (48 + n)"

fun str_nat :: "nat \<Rightarrow> string" where
  "str_nat n = (if n < 10 then [digit_char n] else str_nat (n div 10) @ [digit_char (n mod 10)])"

declare str_nat.simps [simp del]

fun str_exn :: "exn \<Rightarrow> string" where
  "str_exn (KeyError k) = str_nat k"
| "str_exn (TypeError m) = m"
| "str_exn (Raised m) = m"

section \<open>auth.py\<close>

subsection \<open>Configuration\<close>

definition SECRET_KEY :: string where
  "SECRET_KEY = ''super_secret_diabolical_key''"

definition ALGORITHM :: string where
  "ALGORITHM = ''HS256''"

definition ACCESS_TOKEN_EXPIRE_MINUTES :: int where
  "ACCESS_TOKEN_EXPIRE_MINUTES = 30"

subsection \<open>Time\<close>

text \<open>
  \<open>datetime\<close> and \<open>timedelta\<close> have microsecond resolution: an instant is a number
  of microseconds since the epoch (UTC), a duration a number of microseconds, both
  unbounded integers here.
\<close>

type_synonym datetime = int
type_synonym timedelta = int

definition timedelta_minutes :: "int \<Rightarrow> timedelta" where
  "timedelta_minutes m = m * 60 * 1000000"

subsection \<open>The JWT library\<close>

text \<open>
  The claims dictionary of a token. The code only ever stores and reads the keys
  \<open>sub\<close> and \<open>exp\<close>; a key that is absent is \<open>None\<close>. Before encoding,
  \<open>exp\<close> holds a \<open>datetime\<close> (microseconds); inside a token it holds whole seconds
  since the epoch.
\<close>

record claims =
  sub :: "string option"
  exp' :: "int option"

text \<open>
  PyJWT is an external library; it is modelled symbolically. A token is either a
  well-formed JWT, which records the key and algorithm its signature was made with and the
  claims it carries, or a string that does not parse as a JWT.
\<close>

datatype token = JWT (jwt_key: string) (jwt_alg: string) (jwt_claims: claims) | Unparseable string

datatype jwt_error = ExpiredSignatureError | InvalidSignatureError | InvalidAlgorithmError | DecodeError

text \<open>
  \<open>jwt.encode\<close>: a \<open>datetime\<close> under \<open>exp\<close> is converted with
  \<open>timegm(exp.utctimetuple())\<close>, which drops the microseconds.
\<close>

definition jwt_encode :: "claims \<Rightarrow> string \<Rightarrow> string \<Rightarrow> token" where
  "jwt_encode to_encode key algorithm =
     JWT key algorithm (to_encode\<lparr>exp' := map_option (\<lambda>e. e div 1000000) (exp' to_encode)\<rparr>)"

text \<open>
  \<open>jwt.decode\<close> at the instant \<open>now\<close>: the structure and the signature are checked
  first, then \<open>exp\<close> when present: the token is expired when \<open>exp <= now\<close>, \<open>now\<close>
  being the current UTC timestamp in (fractional) seconds and the leeway zero.
\<close>

definition jwt_decode :: "datetime \<Rightarrow> token \<Rightarrow> string \<Rightarrow> string list \<Rightarrow> jwt_error + claims" where
  "jwt_decode now tok key algorithms =
     (case tok of
        Unparseable s \<Rightarrow> Inl DecodeError
      | JWT k a p \<Rightarrow>
          if a \<notin> set algorithms then Inl InvalidAlgorithmError
          else if k \<noteq> key then Inl InvalidSignatureError
          else (case exp' p of
                  None \<Rightarrow> Inr p
                | Some e \<Rightarrow> if e * 1000000 \<le> now then Inl ExpiredSignatureError else Inr p))"

subsection \<open>The user store\<close>

record UserAuth =
  username :: string
  password :: string

text \<open>A stored user is the dictionary with the keys \<open>username\<close>, \<open>password\<close>, \<open>disabled\<close>.\<close>

record db_user = UserAuth +
  disabled :: bool

type_synonym users_db = "string \<rightharpoonup> db_user"

definition fake_users_db :: users_db where
  "fake_users_db =
     [''admin'' \<mapsto> \<lparr>username = ''admin'', password = ''secretpassword'', disabled = False\<rparr>]"

record TokenResponse =
  access_token :: token
  token_type :: string
  expires_in :: int

subsection \<open>Utility functions\<close>

text \<open>
  \<open>create_access_token\<close> at the instant \<open>now\<close>. The test \<open>if expires_delta:\<close> is
  Python truthiness: \<open>None\<close> is false and so is \<open>timedelta(0)\<close>.
\<close>

definition truthy_timedelta :: "timedelta option \<Rightarrow> bool" where
  "truthy_timedelta d = (case d of None \<Rightarrow> False | Some t \<Rightarrow> t \<noteq> 0)"

definition create_access_token :: "datetime \<Rightarrow> claims \<Rightarrow> timedelta option \<Rightarrow> token" where
  "create_access_token now data expires_delta =
     (let to_encode = data;
          expire = (if truthy_timedelta expires_delta then now + the expires_delta
                    else now + timedelta_minutes 15);
          to_encode = to_encode\<lparr>exp' := Some expire\<rparr>
      in jwt_encode to_encode SECRET_KEY ALGORITHM)"

record HTTPAuthorizationCredentials =
  scheme :: string
  credentials :: token

text \<open>
  \<open>verify_token\<close> at the instant \<open>now\<close>. The \<open>HTTPException\<close> raised inside the
  \<open>try\<close> for a missing subject is not a \<open>PyJWTError\<close>, so it passes both handlers.
\<close>

definition verify_token :: "datetime \<Rightarrow> HTTPAuthorizationCredentials \<Rightarrow> error + string" where
  "verify_token now creds =
     (let tok = credentials creds in
      case jwt_decode now tok SECRET_KEY [ALGORITHM] of
        Inr payload \<Rightarrow>
          (case sub payload of
             None \<Rightarrow> Inl (HTTPException 401 ''Token is missing username'')
           | Some subject \<Rightarrow> Inr subject)
      | Inl ExpiredSignatureError \<Rightarrow> Inl (HTTPException 401 ''Token has expired! Login again.'')
      | Inl _ \<Rightarrow> Inl (HTTPException 401 ''Invalid token''))"

subsection \<open>Auth functions\<close>

text \<open>Both functions work on the global dictionary: it is passed in and returned.\<close>

definition register_new_user :: "users_db \<Rightarrow> UserAuth \<Rightarrow> (error + UserAuth) \<times> users_db" where
  "register_new_user db user =
     (if db (username user) \<noteq> None
      then (Inl (HTTPException 400 ''Username already exists''), db)
      else (Inr user,
            db(username user \<mapsto>
                 \<lparr>username = username user, password = password user, disabled = False\<rparr>)))"

definition authenticate_user :: "users_db \<Rightarrow> UserAuth \<Rightarrow> db_user option \<times> users_db" where
  "authenticate_user db user =
     (case db (username user) of
        None \<Rightarrow> (None, db)
      | Some found \<Rightarrow>
          if password found \<noteq> password user then (None, db) else (Some found, db))"

section \<open>main.py\<close>

subsection \<open>External collaborators\<close>

text \<open>
  What \<open>model.predict(...)[0]\<close> gives: the class names of the model, the class id of
  every detected box (what \<open>int(c)\<close> yields for the entries of \<open>boxes.cls\<close>), and the
  picture that \<open>plot()\<close> draws.
\<close>

record 'i yolo_result =
  names :: "nat \<rightharpoonup> string"
  cls :: "nat list"
  plot :: 'i

text \<open>
  What \<open>cv2.VideoCapture(path)\<close> gives for a file: whether it could be opened, the
  frames that successive \<open>read()\<close> calls return before \<open>ret\<close> is false, and the
  properties read with \<open>get\<close>.
\<close>

record 'i capture =
  isOpened :: bool
  frames :: "'i list"
  CAP_PROP_FRAME_WIDTH :: real
  CAP_PROP_FRAME_HEIGHT :: real
  CAP_PROP_FPS :: real

text \<open>
  The library calls of the two pipelines, each with the exception it may raise:
  \<open>Image.open\<close> on the uploaded bytes, \<open>model.predict\<close> on a picture with a confidence
  threshold, the JPEG and Base64 encoding of the annotated picture, and
  \<open>cv2.VideoCapture\<close> on the uploaded bytes once they are in the temporary file.
\<close>

record ('b, 'i) vision =
  Image_open :: "'b \<Rightarrow> exn + 'i"
  model_predict :: "'i \<Rightarrow> real \<Rightarrow> exn + 'i yolo_result"
  jpeg_base64 :: "'i \<Rightarrow> exn + string"
  VideoCapture :: "'b \<Rightarrow> 'i capture"

record 'b UploadFile =
  content_type :: "string option"
  file' :: 'b

subsection \<open>Image prediction\<close>

text \<open>\<open>collections.Counter\<close>: a dictionary from element to count, in insertion order.\<close>

fun counter_add :: "'k \<Rightarrow> ('k \<times> nat) list \<Rightarrow> ('k \<times> nat) list" where
  "counter_add k [] = [(k, 1)]"
| "counter_add k ((k', n) # rest) =
     (if k = k' then (k', n + 1) # rest else (k', n) # counter_add k rest)"

definition Counter :: "'k list \<Rightarrow> ('k \<times> nat) list" where
  "Counter xs = foldl (\<lambda>c k. counter_add k c) [] xs"

definition sum_values :: "('k \<times> nat) list \<Rightarrow> nat" where
  "sum_values counts = sum_list (map snd counts)"

text \<open>The comprehension \<open>[names[int(c)] for c in ...]\<close>: the first missing key raises.\<close>

fun class_labels :: "(nat \<rightharpoonup> string) \<Rightarrow> nat list \<Rightarrow> exn + string list" where
  "class_labels nm [] = Inr []"
| "class_labels nm (c # cs) =
     (case nm c of
        None \<Rightarrow> Inl (KeyError c)
      | Some label \<Rightarrow>
          (case class_labels nm cs of Inl e \<Rightarrow> Inl e | Inr labels \<Rightarrow> Inr (label # labels)))"

text \<open>
  The two status strings end in an emoji, given here by its UTF-8 bytes: a police light
  (U+1F6A8) after \<open>Congested\<close>, a check mark (U+2705) after \<open>Clear\<close>.
\<close>

definition status_congested :: string where
  "status_congested = ''Congested '' @ [CHR 0xF0, CHR 0x9F, CHR 0x9A, CHR 0xA8]"

definition status_clear :: string where
  "status_clear = ''Clear '' @ [CHR 0xE2, CHR 0x9C, CHR 0x85]"

record image_response =
  total_vehicles :: nat
  breakdown :: "(string \<times> nat) list"
  status :: string
  annotated_image :: string

text \<open>The body of \<open>predict_image\<close>: every exception inside the \<open>try\<close> becomes a 500.\<close>

definition predict_image_body ::
  "('b, 'i) vision \<Rightarrow> 'b UploadFile \<Rightarrow> real \<Rightarrow> error + image_response" where
  "predict_image_body env upload conf =
     (case Image_open env (file' upload) of
        Inl e \<Rightarrow> Inl (HTTPException 500 (str_exn e))
      | Inr img \<Rightarrow>
     (case model_predict env img conf of
        Inl e \<Rightarrow> Inl (HTTPException 500 (str_exn e))
      | Inr result \<Rightarrow>
     (case jpeg_base64 env (plot result) of
        Inl e \<Rightarrow> Inl (HTTPException 500 (str_exn e))
      | Inr img_str \<Rightarrow>
     (case class_labels (names result) (cls result) of
        Inl e \<Rightarrow> Inl (HTTPException 500 (str_exn e))
      | Inr labels \<Rightarrow>
          (let counts = Counter labels;
               total = sum_values counts
           in Inr \<lparr>total_vehicles = total,
                   breakdown = counts,
                   status = (if total > 15 then status_congested else status_clear),
                   annotated_image = img_str\<rparr>)))))"

text \<open>
  The endpoint as declared: the dependency \<open>verify_token\<close> runs first, then the query
  parameter \<open>conf\<close> (default 0.25) is validated against \<open>ge=0.0, le=1.0\<close>, and only
  then the body runs.
\<close>

definition predict_image ::
  "('b, 'i) vision \<Rightarrow> datetime \<Rightarrow> HTTPAuthorizationCredentials \<Rightarrow> 'b UploadFile \<Rightarrow> real option
     \<Rightarrow> error + image_response" where
  "predict_image env now creds upload conf_param =
     (case verify_token now creds of
        Inl e \<Rightarrow> Inl e
      | Inr user \<Rightarrow>
          (let conf = (case conf_param of None \<Rightarrow> 0.25 | Some c \<Rightarrow> c) in
           if 0 \<le> conf \<and> conf \<le> 1 then predict_image_body env upload conf
           else Inl RequestValidationError))"

subsection \<open>Video prediction\<close>

text \<open>
  \<open>str.replace(old, new)\<close>: every non-overlapping occurrence, from the left; with an
  empty \<open>old\<close>, \<open>new\<close> goes before every character and at the end.
\<close>

function str_replace :: "string \<Rightarrow> string \<Rightarrow> string \<Rightarrow> string" where
  "str_replace old new s =
     (if old = [] then new @ concat (map (\<lambda>c. c # new) s)
      else if s = [] then []
      else if prefix old s then new @ str_replace old new (drop (length old) s)
      else hd s # str_replace old new (tl s))"
  by pat_completeness auto
termination
  by (relation "measure (\<lambda>(old, new, s). length s)") auto

declare str_replace.simps [simp del]

text \<open>\<open>int(x)\<close> on a finite float: truncation towards zero.\<close>

definition py_int :: "real \<Rightarrow> int" where
  "py_int x = (if 0 \<le> x then \<lfloor>x\<rfloor> else \<lceil>x\<rceil>)"

text \<open>
  The \<open>while cap.isOpened()\<close> loop over the frames still to be read: \<open>out\<close> is what
  \<open>out.write\<close> has received so far, in call order. The result is the exception that left
  the loop, if any, with the frames written and the counter at that point.
\<close>

fun frame_loop ::
  "('i \<Rightarrow> real \<Rightarrow> exn + 'i yolo_result) \<Rightarrow> real \<Rightarrow> 'i list \<Rightarrow> 'i list \<Rightarrow> nat
     \<Rightarrow> exn option \<times> 'i list \<times> nat" where
  "frame_loop predict conf [] out frame_count = (None, out, frame_count)"
| "frame_loop predict conf (frame # rest) out frame_count =
     (case predict frame conf of
        Inl e \<Rightarrow> (Some e, out, frame_count)
      | Inr result \<Rightarrow>
          (let annotated_frame = plot result;
               out = out @ [annotated_frame];
               frame_count = frame_count + 1
           in if frame_count > 300 then (None, out, frame_count)
              else frame_loop predict conf rest out frame_count))"

record FileResponse =
  path :: string
  media_type :: string
  filename :: string

text \<open>
  What a run of the video pipeline leaves behind: the temporary files that exist, whether
  \<open>cap.release()\<close> and \<open>out.release()\<close> were called, how the writer was set up
  (path, codec, frame rate, size) and the frames it received.
\<close>

record 'i video_state =
  tmp_files :: "string set"
  cap_released :: bool
  out_released :: bool
  writer :: "(string \<times> string \<times> int \<times> int \<times> int) option"
  written :: "'i list"

definition untouched :: "string set \<Rightarrow> 'i video_state" where
  "untouched fs =
     \<lparr>tmp_files = fs, cap_released = False, out_released = False, writer = None, written = []\<rparr>"

definition input_path_of :: "string \<Rightarrow> string" where
  "input_path_of tmp_name = tmp_name @ ''.mp4''"

definition output_path_of :: "string \<Rightarrow> string" where
  "output_path_of input_path = str_replace ''.mp4'' ''_out.mp4'' input_path"

text \<open>
  The body of \<open>predict_video\<close>. \<open>tmp_name\<close> is the fresh name that
  \<open>NamedTemporaryFile\<close> picks, before the suffix; \<open>fs\<close> is the set of temporary files
  that exist when the request arrives. \<open>VideoCapture\<close> does not raise on a file it cannot
  open, and \<open>VideoWriter\<close> creates its file when it is constructed. An exception inside the
  \<open>try\<close> skips the two \<open>release()\<close> calls and the \<open>return\<close>; the \<open>finally\<close>
  clause removes the input file on both ways out.
\<close>

definition predict_video_body ::
  "('b, 'i) vision \<Rightarrow> string \<Rightarrow> string set \<Rightarrow> 'b UploadFile \<Rightarrow> real
     \<Rightarrow> (error + FileResponse) \<times> 'i video_state" where
  "predict_video_body env tmp_name fs upload conf =
     (case content_type upload of
        None \<Rightarrow>
          (Inl (Unhandled (TypeError
             (''argument of type '' @ [CHR 0x27] @ ''NoneType'' @ [CHR 0x27] @ '' is not iterable''))),
           untouched fs)
      | Some ct \<Rightarrow>
          if \<not> sublist ''video'' ct
          then (Inl (HTTPException 400 ''File must be a video.''), untouched fs)
          else
            (let input_path = input_path_of tmp_name;
                 fs = insert input_path fs;
                 output_path = output_path_of input_path;
                 cap = VideoCapture env (file' upload);
                 width = py_int (CAP_PROP_FRAME_WIDTH cap);
                 height = py_int (CAP_PROP_FRAME_HEIGHT cap);
                 fps = py_int (CAP_PROP_FPS cap);
                 fourcc = ''avc1'';
                 out = Some (output_path, fourcc, fps, width, height);
                 fs = insert output_path fs;
                 (raised, frames_out, frame_count) =
                    (if isOpened cap then frame_loop (model_predict env) conf (frames cap) [] 0
                     else (None, [], 0))
             in case raised of
                  None \<Rightarrow>
                    (Inr \<lparr>path = output_path, media_type = ''video/mp4'',
                          filename = ''traffic_analysis.mp4''\<rparr>,
                     \<lparr>tmp_files = fs - {input_path}, cap_released = True, out_released = True,
                      writer = out, written = frames_out\<rparr>)
                | Some e \<Rightarrow>
                    (Inl (HTTPException 500 (str_exn e)),
                     \<lparr>tmp_files = fs - {input_path}, cap_released = False, out_released = False,
                      writer = out, written = frames_out\<rparr>)))"

text \<open>
  The endpoint as declared: the dependency \<open>verify_token\<close> runs first; the query
  parameter \<open>conf\<close> (default 0.25) is declared without bounds.
\<close>

definition predict_video ::
  "('b, 'i) vision \<Rightarrow> datetime \<Rightarrow> HTTPAuthorizationCredentials \<Rightarrow> string \<Rightarrow> string set
     \<Rightarrow> 'b UploadFile \<Rightarrow> real option \<Rightarrow> (error + FileResponse) \<times> 'i video_state" where
  "predict_video env now creds tmp_name fs upload conf_param =
     (case verify_token now creds of
        Inl e \<Rightarrow> (Inl e, untouched fs)
      | Inr user \<Rightarrow>
          (let conf = (case conf_param of None \<Rightarrow> 0.25 | Some c \<Rightarrow> c)
           in predict_video_body env tmp_name fs upload conf))"

subsection \<open>Auth endpoints\<close>

definition register :: "datetime \<Rightarrow> users_db \<Rightarrow> UserAuth \<Rightarrow> (error + TokenResponse) \<times> users_db" where
  "register now db user =
     (case register_new_user db user of
        (Inl e, db') \<Rightarrow> (Inl e, db')
      | (Inr registered, db') \<Rightarrow>
          (let access_token =
                 create_access_token now \<lparr>sub = Some (username user), exp' = None\<rparr>
                   (Some (timedelta_minutes ACCESS_TOKEN_EXPIRE_MINUTES))
           in (Inr \<lparr>access_token = access_token, token_type = ''Bearer'',
                    expires_in = ACCESS_TOKEN_EXPIRE_MINUTES * 60\<rparr>, db')))"

definition login :: "datetime \<Rightarrow> users_db \<Rightarrow> UserAuth \<Rightarrow> (error + TokenResponse) \<times> users_db" where
  "login now db user =
     (case authenticate_user db user of
        (None, db') \<Rightarrow> (Inl (HTTPException 401 ''Incorrect username or password''), db')
      | (Some authenticated_user, db') \<Rightarrow>
          (let access_token =
                 create_access_token now \<lparr>sub = Some (username user), exp' = None\<rparr>
                   (Some (timedelta_minutes ACCESS_TOKEN_EXPIRE_MINUTES))
           in (Inr \<lparr>access_token = access_token, token_type = ''Bearer'',
                    expires_in = ACCESS_TOKEN_EXPIRE_MINUTES * 60\<rparr>, db')))"

section \<open>Notions used to state the properties\<close>

text \<open>The credentials that \<open>HTTPBearer\<close> hands over for \<open>Authorization: Bearer <token>\<close>.\<close>

definition bearer :: "token \<Rightarrow> HTTPAuthorizationCredentials" where
  "bearer tok = \<lparr>scheme = ''Bearer'', credentials = tok\<rparr>"

text \<open>
  The operations on the user store, and the store reached from the initial
  \<open>fake_users_db\<close> by a sequence of them.
\<close>

datatype store_op = Register UserAuth | Authenticate UserAuth

fun apply_store_op :: "users_db \<Rightarrow> store_op \<Rightarrow> users_db" where
  "apply_store_op db (Register user) = snd (register_new_user db user)"
| "apply_store_op db (Authenticate user) = snd (authenticate_user db user)"

definition store_after :: "store_op list \<Rightarrow> users_db" where
  "store_after ops = foldl apply_store_op fake_users_db ops"

text \<open>
  The annotation of one frame, \<open>model.predict(frame, conf)[0].plot()\<close>, with the
  exception it may raise.
\<close>

definition annotate :: "('b, 'i) vision \<Rightarrow> real \<Rightarrow> 'i \<Rightarrow> exn + 'i" where
  "annotate env conf frame =
     (case model_predict env frame conf of Inl e \<Rightarrow> Inl e | Inr result \<Rightarrow> Inr (plot result))"

text \<open>
  A concrete environment for the witnesses: an upload is a list of numbers; as a video
  its frames are these numbers, as a picture it shows as many vehicles as the list is
  long; a frame or picture \<open>n\<close> is detected as \<open>n\<close> boxes of class 0 and drawn as
  \<open>n + 1000\<close>. In \<open>failing_env\<close> the detection raises on frame 2.
\<close>

definition demo_env :: "(nat list, nat) vision" where
  "demo_env =
     \<lparr>Image_open = (\<lambda>b. Inr (length b)),
      model_predict = (\<lambda>frame conf.
         Inr \<lparr>names = [0 \<mapsto> ''car''], cls = replicate frame 0, plot = frame + 1000\<rparr>),
      jpeg_base64 = (\<lambda>i. Inr ''/9j/4AAQ''),
      VideoCapture = (\<lambda>b. \<lparr>isOpened = True, frames = b, CAP_PROP_FRAME_WIDTH = 640,
                             CAP_PROP_FRAME_HEIGHT = 480, CAP_PROP_FPS = 30\<rparr>)\<rparr>"

definition failing_env :: "(nat list, nat) vision" where
  "failing_env =
     demo_env\<lparr>model_predict := (\<lambda>frame conf.
        if frame = 2 then Inl (Raised ''inference failed'') else model_predict demo_env frame conf)\<rparr>"

definition video_upload :: "nat list \<Rightarrow> nat list UploadFile" where
  "video_upload b = \<lparr>content_type = Some ''video/mp4'', file' = b\<rparr>"

section \<open>Properties of the token codec\<close>

lemma seconds_floor_future:
  fixes now d :: int
  assumes "1000000 \<le> d"
  shows "now < (now + d) div 1000000 * 1000000"
proof -
  have "(now + d) mod 1000000 < 1000000" by simp
  moreover have "(now + d) div 1000000 * 1000000 = (now + d) - (now + d) mod 1000000"
    by (simp add: minus_mod_eq_div_mult)
  ultimately show ?thesis using assms by linarith
qed

lemma jwt_decode_own_token:
  "jwt_decode now' (create_access_token now data d) SECRET_KEY [ALGORITHM] =
     (let expire = (if truthy_timedelta d then now + the d else now + timedelta_minutes 15)
      in if expire div 1000000 * 1000000 \<le> now' then Inl ExpiredSignatureError
         else Inr (data\<lparr>exp' := Some (expire div 1000000)\<rparr>))"
  by (simp add: create_access_token_def jwt_encode_def jwt_decode_def Let_def)

lemma verify_own_token:
  "verify_token now' (bearer (create_access_token now data d)) =
     (let expire = (if truthy_timedelta d then now + the d else now + timedelta_minutes 15)
      in if expire div 1000000 * 1000000 \<le> now'
         then Inl (HTTPException 401 ''Token has expired! Login again.'')
         else (case sub data of
                 None \<Rightarrow> Inl (HTTPException 401 ''Token is missing username'')
               | Some u \<Rightarrow> Inr u))"
  by (simp add: verify_token_def bearer_def jwt_decode_own_token Let_def)

text \<open>
  A token that carries the service's signature and an expiry (in whole seconds) that is
  not after the current instant is refused as expired.
\<close>

lemma verify_token_expired:
  assumes "credentials creds = JWT SECRET_KEY ALGORITHM p" and "exp' p = Some e"
    and "e * 1000000 \<le> now"
  shows "verify_token now creds = Inl (HTTPException 401 ''Token has expired! Login again.'')"
  using assms by (simp add: verify_token_def jwt_decode_def)

text \<open>
  Claim C2, as amended. When the decoded payload of a token has no \<open>sub\<close> claim,
  \<open>verify_token\<close> fails with the 401 error "Token is missing username"; when the claim
  is present, its value is returned as it is, whatever the string.
\<close>

theorem verify_token_missing_sub:
  assumes "jwt_decode now (credentials creds) SECRET_KEY [ALGORITHM] = Inr p"
  shows "(sub p = None \<longrightarrow>
            verify_token now creds = Inl (HTTPException 401 ''Token is missing username''))
       \<and> (\<forall>u. sub p = Some u \<longrightarrow> verify_token now creds = Inr u)"
  using assms by (simp add: verify_token_def)

theorem verify_token_missing_sub_witness:
  "jwt_decode 0 (credentials (bearer (create_access_token 0 \<lparr>sub = None, exp' = None\<rparr> None)))
      SECRET_KEY [ALGORITHM] = Inr \<lparr>sub = None, exp' = Some 900\<rparr>
   \<and> verify_token 0 (bearer (create_access_token 0 \<lparr>sub = None, exp' = None\<rparr> None))
       = Inl (HTTPException 401 ''Token is missing username'')"
proof -
  have d: "jwt_decode 0 (credentials (bearer (create_access_token 0 \<lparr>sub = None, exp' = None\<rparr> None)))
      SECRET_KEY [ALGORITHM] = Inr \<lparr>sub = None, exp' = Some 900\<rparr>"
    by (simp add: bearer_def jwt_decode_own_token truthy_timedelta_def timedelta_minutes_def)
  from verify_token_missing_sub [OF d] d show ?thesis by simp
qed

text \<open>
  Claim C2 as stated fails: the token that \<open>register\<close> issues for the empty username
  carries an empty subject, and \<open>verify_token\<close> returns the empty string for it.
\<close>

theorem verify_token_empty_sub_counterexample:
  "verify_token 0 (bearer (create_access_token 0 \<lparr>sub = Some '''', exp' = None\<rparr>
      (Some (timedelta_minutes ACCESS_TOKEN_EXPIRE_MINUTES)))) = Inr ''''"
  by (simp add: verify_own_token truthy_timedelta_def timedelta_minutes_def
        ACCESS_TOKEN_EXPIRE_MINUTES_def)

text \<open>
  Claim C8, at the input where the code departs from it. A token issued with a time to
  live of zero does not expire at once: \<open>timedelta(0)\<close> is false in the test
  \<open>if expires_delta:\<close>, the default of 15 minutes is taken, and the token verifies at the
  very instant it was issued.
\<close>

theorem zero_ttl_token_verifies:
  "verify_token now (bearer (create_access_token now \<lparr>sub = Some u, exp' = None\<rparr> (Some 0)))
     = Inr u"
  using seconds_floor_future [of 900000000 now]
  by (simp add: verify_own_token truthy_timedelta_def timedelta_minutes_def)

section \<open>Properties of the user store\<close>

text \<open>
  Claim C6. Registering a username that the store already holds fails with the 400
  error "Username already exists" and leaves the store as it was, in the function and in
  the endpoint; the store is a dictionary, so it still holds the one record it held for
  that username.
\<close>

theorem register_duplicate:
  assumes "db (username user) = Some existing"
  shows "register_new_user db user = (Inl (HTTPException 400 ''Username already exists''), db)
       \<and> fst (register now db user) = Inl (HTTPException 400 ''Username already exists'')
       \<and> snd (register now db user) = db"
  using assms by (simp add: register_new_user_def register_def)

theorem register_duplicate_witness:
  "fake_users_db (username \<lparr>username = ''admin'', password = ''other''\<rparr>)
     = Some \<lparr>username = ''admin'', password = ''secretpassword'', disabled = False\<rparr>
   \<and> register_new_user fake_users_db \<lparr>username = ''admin'', password = ''other''\<rparr>
     = (Inl (HTTPException 400 ''Username already exists''), fake_users_db)
   \<and> snd (register_new_user fake_users_db \<lparr>username = ''admin'', password = ''other''\<rparr>) ''admin''
     = Some \<lparr>username = ''admin'', password = ''secretpassword'', disabled = False\<rparr>
   \<and> fst (register_new_user fake_users_db \<lparr>username = ''Admin'', password = ''other''\<rparr>)
     = Inr \<lparr>username = ''Admin'', password = ''other''\<rparr>"
proof -
  have h: "fake_users_db (username \<lparr>username = ''admin'', password = ''other''\<rparr>)
     = Some \<lparr>username = ''admin'', password = ''secretpassword'', disabled = False\<rparr>"
    by (simp add: fake_users_db_def)
  have c: "fst (register_new_user fake_users_db \<lparr>username = ''Admin'', password = ''other''\<rparr>)
     = Inr \<lparr>username = ''Admin'', password = ''other''\<rparr>"
    by (simp add: register_new_user_def fake_users_db_def)
  from register_duplicate [where db = fake_users_db
      and user = "\<lparr>username = ''admin'', password = ''other''\<rparr>" and now = 0, OF h] h c
  show ?thesis by simp
qed

lemma register_new_user_keeps_records:
  assumes "\<And>k u. db k = Some u \<Longrightarrow> username u = k \<and> \<not> disabled u"
    and "snd (register_new_user db user) k = Some u"
  shows "username u = k \<and> \<not> disabled u"
  using assms by (auto simp: register_new_user_def split: if_splits)

lemma authenticate_user_store: "snd (authenticate_user db user) = db"
  by (simp add: authenticate_user_def split: option.split)

lemma apply_store_op_keeps_records:
  assumes "\<And>k u. db k = Some u \<Longrightarrow> username u = k \<and> \<not> disabled u"
    and "apply_store_op db op k = Some u"
  shows "username u = k \<and> \<not> disabled u"
proof (cases op)
  case (Register user)
  with assms show ?thesis
    using register_new_user_keeps_records [of db user k u] by simp
next
  case (Authenticate user)
  with assms show ?thesis by (simp add: authenticate_user_store)
qed

lemma foldl_store_keeps_records:
  assumes "\<And>k u. db k = Some u \<Longrightarrow> username u = k \<and> \<not> disabled u"
    and "foldl apply_store_op db ops k = Some u"
  shows "username u = k \<and> \<not> disabled u"
  using assms
proof (induction ops arbitrary: db k u)
  case Nil
  then show ?case by simp
next
  case (Cons op ops)
  have "\<And>k u. apply_store_op db op k = Some u \<Longrightarrow> username u = k \<and> \<not> disabled u"
    using apply_store_op_keeps_records Cons.prems(1) by blast
  from Cons.IH [OF this] Cons.prems(2) show ?case by simp
qed

text \<open>
  Claim C10. In the store reached from the initial \<open>fake_users_db\<close> by any sequence of
  register and authenticate operations (the empty sequence included), every record is
  stored under its own \<open>username\<close> and has \<open>disabled\<close> false; and \<open>authenticate_user\<close>
  leaves every store as it found it.
\<close>

theorem store_records_wellformed:
  "(store_after ops k = Some u \<longrightarrow> username u = k \<and> disabled u = False)
   \<and> snd (authenticate_user db user) = db"
proof -
  have "\<And>k u. fake_users_db k = Some u \<Longrightarrow> username u = k \<and> \<not> disabled u"
    by (auto simp: fake_users_db_def split: if_splits)
  then have "store_after ops k = Some u \<longrightarrow> username u = k \<and> \<not> disabled u"
    unfolding store_after_def using foldl_store_keeps_records by blast
  then show ?thesis by (simp add: authenticate_user_store)
qed

theorem store_records_wellformed_witness:
  "store_after [Register \<lparr>username = ''bob'', password = ''pw''\<rparr>,
                Authenticate \<lparr>username = ''bob'', password = ''pw''\<rparr>,
                Register \<lparr>username = ''bob'', password = ''other''\<rparr>] ''bob''
     = Some \<lparr>username = ''bob'', password = ''pw'', disabled = False\<rparr>
   \<and> username \<lparr>username = ''bob'', password = ''pw'', disabled = False\<rparr> = ''bob''
   \<and> disabled \<lparr>username = ''bob'', password = ''pw'', disabled = False\<rparr> = False
   \<and> snd (authenticate_user fake_users_db \<lparr>username = ''admin'', password = ''secretpassword''\<rparr>)
       = fake_users_db"
proof -
  have s: "store_after [Register \<lparr>username = ''bob'', password = ''pw''\<rparr>,
                Authenticate \<lparr>username = ''bob'', password = ''pw''\<rparr>,
                Register \<lparr>username = ''bob'', password = ''other''\<rparr>] ''bob''
     = Some \<lparr>username = ''bob'', password = ''pw'', disabled = False\<rparr>"
    by (simp add: store_after_def fake_users_db_def register_new_user_def authenticate_user_def)
  from store_records_wellformed [where ops = "[Register \<lparr>username = ''bob'', password = ''pw''\<rparr>,
                Authenticate \<lparr>username = ''bob'', password = ''pw''\<rparr>,
                Register \<lparr>username = ''bob'', password = ''other''\<rparr>]" and k = "''bob''"
      and u = "\<lparr>username = ''bob'', password = ''pw'', disabled = False\<rparr>"
      and db = fake_users_db and user = "\<lparr>username = ''admin'', password = ''secretpassword''\<rparr>"] s
  show ?thesis by simp
qed

section \<open>Registration, login and verification together\<close>

text \<open>
  Claim C7. For a username the store does not hold yet, \<open>register\<close> succeeds, a
  \<open>login\<close> with the same credentials at the same or a later instant succeeds, and both
  tokens verify to that username at every instant from the login up to one second before
  thirty minutes after the registration (the expiry is cut to whole seconds).
\<close>

theorem register_then_login_roundtrip:
  assumes "db (username user) = None"
    and "t_register \<le> t_login" and "t_login \<le> t_verify"
    and "t_verify \<le> t_register + timedelta_minutes 30 - 1000000"
  shows "\<exists>r1 r2 db'.
           register t_register db user = (Inr r1, db')
         \<and> login t_login db' user = (Inr r2, db')
         \<and> verify_token t_verify (bearer (access_token r1)) = Inr (username user)
         \<and> verify_token t_verify (bearer (access_token r2)) = Inr (username user)"
proof -
  let ?db' = "db(username user \<mapsto>
                 \<lparr>username = username user, password = password user, disabled = False\<rparr>)"
  let ?tok = "\<lambda>t. create_access_token t \<lparr>sub = Some (username user), exp' = None\<rparr>
                   (Some (timedelta_minutes ACCESS_TOKEN_EXPIRE_MINUTES))"
  let ?resp = "\<lambda>t. \<lparr>access_token = ?tok t, token_type = ''Bearer'',
                    expires_in = ACCESS_TOKEN_EXPIRE_MINUTES * 60\<rparr>"
  have reg: "register t_register db user = (Inr (?resp t_register), ?db')"
    using assms(1) by (simp add: register_def register_new_user_def)
  have log: "login t_login ?db' user = (Inr (?resp t_login), ?db')"
    by (simp add: login_def authenticate_user_def)
  have fresh: "verify_token t_verify (bearer (?tok t)) = Inr (username user)"
    if "t_verify \<le> t + timedelta_minutes 30 - 1000000" for t
  proof -
    have "t + 1800000000 - 1000000 < (t + 1800000000) div 1000000 * 1000000"
      using seconds_floor_future [of 1000000 "t + 1800000000 - 1000000"] by simp
    with that have "\<not> (t + 1800000000) div 1000000 * 1000000 \<le> t_verify"
      by (simp add: timedelta_minutes_def)
    then show ?thesis
      by (simp add: verify_own_token truthy_timedelta_def timedelta_minutes_def
            ACCESS_TOKEN_EXPIRE_MINUTES_def)
  qed
  have v1: "verify_token t_verify (bearer (access_token (?resp t_register))) = Inr (username user)"
    using fresh [of t_register] assms(4) by simp
  have v2: "verify_token t_verify (bearer (access_token (?resp t_login))) = Inr (username user)"
    using fresh [of t_login] assms(2,4) by (simp add: timedelta_minutes_def)
  from reg log v1 v2 show ?thesis by blast
qed

theorem register_then_login_roundtrip_witness:
  "fake_users_db (username \<lparr>username = ''bob'', password = ''pw''\<rparr>) = None
   \<and> (5000000::int) \<le> 6000000 \<and> (6000000::int) \<le> 7000000
   \<and> (7000000::int) \<le> 5000000 + timedelta_minutes 30 - 1000000
   \<and> (\<exists>r1 r2 db'.
        register 5000000 fake_users_db \<lparr>username = ''bob'', password = ''pw''\<rparr> = (Inr r1, db')
      \<and> login 6000000 db' \<lparr>username = ''bob'', password = ''pw''\<rparr> = (Inr r2, db')
      \<and> verify_token 7000000 (bearer (access_token r1)) = Inr ''bob''
      \<and> verify_token 7000000 (bearer (access_token r2)) = Inr ''bob'')"
proof -
  have h1: "fake_users_db (username \<lparr>username = ''bob'', password = ''pw''\<rparr>) = None"
    by (simp add: fake_users_db_def)
  have h2: "(5000000::int) \<le> 6000000" and h3: "(6000000::int) \<le> 7000000"
    and h4: "(7000000::int) \<le> 5000000 + timedelta_minutes 30 - 1000000"
    by (simp_all add: timedelta_minutes_def)
  from register_then_login_roundtrip [where db = fake_users_db
      and user = "\<lparr>username = ''bob'', password = ''pw''\<rparr>", OF h1 h2 h3 h4] h1 h2 h3 h4
  show ?thesis by simp
qed

section \<open>Properties of the image pipeline\<close>

lemma sum_values_counter_add: "sum_values (counter_add k c) = sum_values c + 1"
  by (induction c) (auto simp: sum_values_def)

lemma sum_values_foldl:
  "sum_values (foldl (\<lambda>c k. counter_add k c) c0 xs) = sum_values c0 + length xs"
  by (induction xs arbitrary: c0) (simp_all add: sum_values_counter_add)

lemma sum_values_Counter: "sum_values (Counter xs) = length xs"
  by (simp add: Counter_def sum_values_foldl) (simp add: sum_values_def)

lemma class_labels_length: "class_labels nm cs = Inr labels \<Longrightarrow> length labels = length cs"
  by (induction cs arbitrary: labels) (auto split: option.splits sum.splits)

lemma class_labels_replicate:
  "nm c = Some l \<Longrightarrow> class_labels nm (replicate n c) = Inr (replicate n l)"
  by (induction n) simp_all

lemma status_strings_differ: "status_congested \<noteq> status_clear"
  by (simp add: status_congested_def status_clear_def)

lemma demo_predict_image:
  "predict_image_body demo_env \<lparr>content_type = Some ''image/jpeg'', file' = b\<rparr> conf =
     Inr \<lparr>total_vehicles = length b, breakdown = Counter (replicate (length b) ''car''),
          status = (if length b > 15 then status_congested else status_clear),
          annotated_image = ''/9j/4AAQ''\<rparr>"
  by (simp add: predict_image_body_def demo_env_def class_labels_replicate sum_values_Counter
        Let_def)

text \<open>
  Claim C5. Whenever the image pipeline answers, \<open>total_vehicles\<close> is the number of
  detected boxes, and the status is the congested string exactly when that total is
  greater than 15 and the clear string exactly when it is at most 15. (The two strings of
  the code are \<open>Congested\<close> and \<open>Clear\<close>, each followed by an emoji.)
\<close>

theorem image_status_threshold:
  assumes "Image_open env (file' upload) = Inr img"
    and "model_predict env img conf = Inr result"
    and "predict_image_body env upload conf = Inr resp"
  shows "total_vehicles resp = length (cls result)
       \<and> (status resp = status_congested \<longleftrightarrow> 15 < total_vehicles resp)
       \<and> (status resp = status_clear \<longleftrightarrow> total_vehicles resp \<le> 15)"
proof -
  from assms obtain img_str labels where
    labels: "class_labels (names result) (cls result) = Inr labels" and
    resp: "resp = \<lparr>total_vehicles = sum_values (Counter labels), breakdown = Counter labels,
                   status = (if sum_values (Counter labels) > 15
                             then status_congested else status_clear),
                   annotated_image = img_str\<rparr>"
    by (auto simp: predict_image_body_def Let_def split: sum.splits)
  have "sum_values (Counter labels) = length (cls result)"
    using class_labels_length [OF labels] by (simp add: sum_values_Counter)
  with resp status_strings_differ show ?thesis by auto
qed

theorem image_status_threshold_witness:
  "status (projr (predict_image_body demo_env
       \<lparr>content_type = Some ''image/jpeg'', file' = replicate 15 0\<rparr> 0.25)) = status_clear
   \<and> status (projr (predict_image_body demo_env
       \<lparr>content_type = Some ''image/jpeg'', file' = replicate 16 0\<rparr> 0.25)) = status_congested"
proof -
  let ?up = "\<lambda>n. \<lparr>content_type = Some ''image/jpeg'', file' = replicate n (0::nat)\<rparr>"
  let ?res = "\<lambda>n::nat. \<lparr>names = [0 \<mapsto> ''car''], cls = replicate n (0::nat), plot = n + 1000\<rparr>"
  have o: "Image_open demo_env (file' (?up n)) = Inr n" for n
    by (simp add: demo_env_def)
  have m: "model_predict demo_env n 0.25 = Inr (?res n)" for n
    by (simp add: demo_env_def)
  have b: "predict_image_body demo_env (?up n) 0.25
             = Inr (projr (predict_image_body demo_env (?up n) 0.25))" for n
    by (simp add: demo_predict_image)
  from image_status_threshold [OF o m b, of 15] image_status_threshold [OF o m b, of 16]
  show ?thesis by simp
qed

end
